theory Spec2Isabelle
  imports Complex_Main
begin

section \<open>White blood cell extraction: the model of \<^verbatim>\<open>extract.py\<close>\<close>

text \<open>
  The development embeds \<^verbatim>\<open>WhiteBloodCellDetector\<close> of \<^verbatim>\<open>extract.py\<close>.
  Python values are modelled as follows.
  \<^item> A Python \<^verbatim>\<open>int\<close> is an \<open>int\<close>. A float is the rational it denotes. Every float the
    program computes from integer pixel coordinates is half an integer, plus or minus
    100, so that arithmetic is exact; the true division of line 59 and its comparison
    with \<^verbatim>\<open>0.7\<close> agree with exact arithmetic for widths and heights below \<open>2^49\<close>.
  \<^item> A confidence is a float32. Line 50 compares it with \<^verbatim>\<open>0.35\<close> in float32, that is
    with the float32 nearest to 0.35, which is \<open>11744051 / 33554432\<close>.
  \<^item> \<^verbatim>\<open>max\<close>, \<^verbatim>\<open>min\<close> and \<^verbatim>\<open>-\<close> are applied to mixed \<^verbatim>\<open>int\<close>/\<^verbatim>\<open>float\<close>
    arguments, and the f-string prints \<^verbatim>\<open>200\<close> for an int and \<^verbatim>\<open>200.0\<close> for a float, so a
    number carries its Python type (\<open>pynum\<close>).
  \<^item> An exception is a value of \<open>py_error\<close>; a statement that ran to its end yields
    \<open>Done\<close> with the world it left, one that raised yields \<open>Raised\<close> with the error and
    the world at the moment of the raise (the writes made before it stay on disk).
  \<^item> The file system is part of the world: the directories, and the files by path in
    the order in which a directory lists them. \<^verbatim>\<open>os.listdir\<close> and \<^verbatim>\<open>Image.open\<close> read
    it, so they see what the program itself has saved. Paths are compared as written,
    up to one trailing slash of a directory. Cropping and saving a JPEG are taken to
    succeed.
\<close>

subsection \<open>Python numbers and their printed form\<close>

datatype py_error = ZeroDivisionError | FileNotFoundError | FileExistsError | UnidentifiedImageError

datatype pynum = PInt int | PFloat rat

fun num_val :: "pynum \<Rightarrow> rat" where
  "num_val (PInt i) = of_int i"
| "num_val (PFloat x) = x"

text \<open>\<^verbatim>\<open>a - b\<close>: an int only when both operands are ints.\<close>

fun py_sub :: "pynum \<Rightarrow> pynum \<Rightarrow> pynum" where
  "py_sub (PInt a) (PInt b) = PInt (a - b)"
| "py_sub a b = PFloat (num_val a - num_val b)"

text \<open>
  \<^verbatim>\<open>max(a, b)\<close> and \<^verbatim>\<open>min(a, b)\<close> return one of their arguments unchanged: the second
  only when it is strictly greater (smaller), the first on a tie.
\<close>

definition py_max :: "pynum \<Rightarrow> pynum \<Rightarrow> pynum" where
  "py_max a b = (if num_val b > num_val a then b else a)"

definition py_min :: "pynum \<Rightarrow> pynum \<Rightarrow> pynum" where
  "py_min a b = (if num_val b < num_val a then b else a)"

text \<open>\<^verbatim>\<open>int(x)\<close> of a float truncates towards zero.\<close>

definition py_int :: "rat \<Rightarrow> int" where
  "py_int x = (if x < 0 then - \<lfloor>- x\<rfloor> else \<lfloor>x\<rfloor>)"

text \<open>\<^verbatim>\<open>a / b\<close> on ints is true division and raises on a zero divisor.\<close>

definition py_truediv :: "int \<Rightarrow> int \<Rightarrow> py_error + rat" where
  "py_truediv a b = (if b = 0 then Inl ZeroDivisionError else Inr (of_int a / of_int b))"

definition digit_chr :: "nat \<Rightarrow> char" where
  "digit_chr d = ''0123456789'' ! d"

function str_nat :: "nat \<Rightarrow> string" where
  "str_nat n = (if n < 10 then [digit_chr n] else str_nat (n div 10) @ [digit_chr (n mod 10)])"
  by pat_completeness auto
termination
  by (relation "measure id") auto

declare str_nat.simps [simp del]

definition str_int :: "int \<Rightarrow> string" where
  "str_int i = (if i < 0 then ''-'' @ str_nat (nat (- i)) else str_nat (nat i))"

text \<open>
  \<^verbatim>\<open>repr\<close> of a float that is half an integer (all floats printed by the program are):
  the integer part, then \<^verbatim>\<open>.0\<close> or \<^verbatim>\<open>.5\<close>. Python prints this form below \<open>10^16\<close>.
\<close>

definition float_repr :: "rat \<Rightarrow> string" where
  "float_repr x =
     (let n = nat \<lfloor>2 * \<bar>x\<bar>\<rfloor>
      in (if x < 0 then ''-'' else '''') @ str_nat (n div 2) @ (if even n then ''.0'' else ''.5''))"

fun py_str :: "pynum \<Rightarrow> string" where
  "py_str (PInt i) = str_int i"
| "py_str (PFloat x) = float_repr x"

text \<open>
  \<^verbatim>\<open>"{:.2f}".format(x)\<close>: the value rounded to hundredths, ties to the even digit,
  printed with exactly two digits after the point.
\<close>

definition round_half_even :: "rat \<Rightarrow> int" where
  "round_half_even q =
     (let f = \<lfloor>q\<rfloor>; d = q - of_int f
      in if d < 1 / 2 then f else if 1 / 2 < d then f + 1 else if even f then f else f + 1)"

definition format_2f :: "rat \<Rightarrow> string" where
  "format_2f x =
     (let n = nat (round_half_even (100 * \<bar>x\<bar>))
      in (if x < 0 then ''-'' else '''') @ str_nat (n div 100) @ ''.'' @
         [digit_chr (n mod 100 div 10), digit_chr (n mod 10)])"

text \<open>\<^verbatim>\<open>s.endswith(suffix)\<close> and \<^verbatim>\<open>os.path.join(a, b)\<close> (POSIX).\<close>

definition endswith :: "string \<Rightarrow> string \<Rightarrow> bool" where
  "endswith s suffix =
     (length suffix \<le> length s \<and> drop (length s - length suffix) s = suffix)"

definition os_path_join :: "string \<Rightarrow> string \<Rightarrow> string" where
  "os_path_join a b =
     (if b \<noteq> [] \<and> hd b = CHR ''/'' then b
      else if a = [] \<or> last a = CHR ''/'' then a @ b
      else a @ ''/'' @ b)"

subsection \<open>Data: detections, images, the detector object and the world\<close>

text \<open>
  A box of \<^verbatim>\<open>result.boxes\<close> has a confidence \<^verbatim>\<open>box.conf\<close> and the rows of
  \<^verbatim>\<open>box.xyxy\<close>, each \<open>(left, top, right, bottom)\<close>. An image has \<^verbatim>\<open>image.size\<close>
  \<open>(width, height)\<close>; its raster is opaque.
\<close>

record box =
  conf :: rat
  xyxy :: "(rat \<times> rat \<times> rat \<times> rat) list"

record image =
  size_image :: "int \<times> int"
  raster :: nat

type_synonym region = "pynum \<times> pynum \<times> pynum \<times> pynum"

text \<open>\<^verbatim>\<open>image.crop(region)\<close>, as it is written to disk.\<close>

type_synonym crop = "image \<times> region"

text \<open>
  What a file holds, as \<^verbatim>\<open>Image.open\<close> sees it: a picture it decodes, something on
  which it raises the given exception, or a crop that this program saved.
\<close>

datatype content = Picture image | Undecodable py_error | Saved crop

record detector =
  model :: "image \<Rightarrow> box list list"
  input_directory :: string
  output_directory :: string
  save_to_csv :: bool

text \<open>What \<^verbatim>\<open>Image.open\<close> gives on a JPEG that this program saved is a parameter.\<close>

record env =
  decode_saved :: "crop \<Rightarrow> py_error + image"

text \<open>
  The world: the directories that exist, the files by path (in listing order), the rows
  of \<^verbatim>\<open>output.csv\<close> (each a list of fields, as handed to \<^verbatim>\<open>writerow\<close> and printed by
  \<^verbatim>\<open>str\<close>), and the lines printed.
\<close>

record world =
  dirs :: "string list"
  files :: "(string \<times> content) list"
  output_csv :: "string list list"
  stdout :: "string list"

datatype outcome = Done world | Raised py_error world

fun world_of :: "outcome \<Rightarrow> world" where
  "world_of (Done w) = w"
| "world_of (Raised e w) = w"

fun raised :: "outcome \<Rightarrow> py_error option" where
  "raised (Done w) = None"
| "raised (Raised e w) = Some e"

text \<open>
  A \<^verbatim>\<open>for\<close> loop whose body may raise: the items are taken in order, and the first
  exception leaves the loop with the world of that moment. \<^verbatim>\<open>continue\<close> is a body that
  is \<open>Done\<close> early.
\<close>

fun for_each :: "('a \<Rightarrow> world \<Rightarrow> outcome) \<Rightarrow> 'a list \<Rightarrow> world \<Rightarrow> outcome" where
  "for_each body [] w = Done w"
| "for_each body (x # xs) w =
     (case body x w of
        Done w' \<Rightarrow> for_each body xs w'
      | Raised e w' \<Rightarrow> Raised e w')"

definition print :: "string \<Rightarrow> world \<Rightarrow> world" where
  "print s w = w\<lparr>stdout := stdout w @ [s]\<rparr>"

subsection \<open>The file system\<close>

text \<open>A directory path with its trailing slash; the empty path stays empty.\<close>

definition dir_prefix :: "string \<Rightarrow> string" where
  "dir_prefix d = (if d = [] \<or> last d = CHR ''/'' then d else d @ ''/'')"

text \<open>\<^verbatim>\<open>os.path.exists\<close>, asked of a directory path.\<close>

definition os_path_exists :: "world \<Rightarrow> string \<Rightarrow> bool" where
  "os_path_exists w p = (p \<noteq> [] \<and> dir_prefix p \<in> set (map dir_prefix (dirs w)))"

definition os_makedirs :: "string \<Rightarrow> world \<Rightarrow> outcome" where
  "os_makedirs p w =
     (if p = [] then Raised FileNotFoundError w
      else if os_path_exists w p then Raised FileExistsError w
      else Done (w\<lparr>dirs := dirs w @ [p]\<rparr>))"

text \<open>
  The name under which the file at path \<open>p\<close> is an entry of directory \<open>d\<close>, if it is
  one: \<open>p\<close> is the directory's prefix followed by a name without a slash.
\<close>

definition entry_name :: "string \<Rightarrow> string \<Rightarrow> string option" where
  "entry_name d p =
     (let pre = dir_prefix d; n = drop (length pre) p
      in if take (length pre) p = pre \<and> n \<noteq> [] \<and> CHR ''/'' \<notin> set n then Some n else None)"

text \<open>\<^verbatim>\<open>os.listdir(d)\<close>: the entries of \<open>d\<close>, or the exception for a directory that is not there.\<close>

definition os_listdir :: "world \<Rightarrow> string \<Rightarrow> py_error + string list" where
  "os_listdir w d =
     (if os_path_exists w d then Inr (List.map_filter (entry_name d) (map fst (files w)))
      else Inl FileNotFoundError)"

text \<open>\<^verbatim>\<open>Image.open(path)\<close>.\<close>

definition image_open :: "env \<Rightarrow> world \<Rightarrow> string \<Rightarrow> py_error + image" where
  "image_open ev w p =
     (case map_of (files w) p of
        None \<Rightarrow> Inl FileNotFoundError
      | Some (Picture img) \<Rightarrow> Inr img
      | Some (Undecodable e) \<Rightarrow> Inl e
      | Some (Saved c) \<Rightarrow> decode_saved ev c)"

text \<open>Writing a file: over the file of that path if there is one, as a new last entry if not.\<close>

fun write_file :: "string \<Rightarrow> content \<Rightarrow> (string \<times> content) list \<Rightarrow> (string \<times> content) list" where
  "write_file p c [] = [(p, c)]"
| "write_file p c (e # es) = (if fst e = p then (p, c) # es else e # write_file p c es)"

subsection \<open>\<^verbatim>\<open>set_save_to_csv\<close> and \<^verbatim>\<open>_save_to_csv\<close>\<close>

definition csv_header :: "string list" where
  "csv_header = [''filename'', ''confidence'', ''center_x'', ''center_y'', ''height'', ''width'']"

text \<open>Opening \<^verbatim>\<open>output.csv\<close> in mode \<^verbatim>\<open>w\<close> truncates it; the header is its only row.\<close>

definition set_save_to_csv :: "detector \<Rightarrow> bool \<Rightarrow> world \<Rightarrow> detector \<times> world" where
  "set_save_to_csv self b w =
     (self\<lparr>save_to_csv := b\<rparr>,
      if b then print ''Saving to csv file: output.csv'' (w\<lparr>output_csv := [csv_header]\<rparr>)
      else w)"

text \<open>
  \<^verbatim>\<open>_save_to_csv(self, filename, confidence, center_x, center_y, height, width)\<close>
  appends one row, the fields in the order of the parameters.
\<close>

definition save_row ::
  "string \<Rightarrow> string \<Rightarrow> pynum \<Rightarrow> pynum \<Rightarrow> pynum \<Rightarrow> pynum \<Rightarrow> world \<Rightarrow> world" where
  "save_row filename confidence center_x center_y height width w =
     w\<lparr>output_csv := output_csv w @
        [[filename, confidence, py_str center_x, py_str center_y, py_str height, py_str width]]\<rparr>"

subsection \<open>\<^verbatim>\<open>_process_image\<close>\<close>

text \<open>
  Line 59, \<^verbatim>\<open>(width / height < 0.7) or (height / width < 0.7)\<close>: the left division is
  evaluated first, the right one only when the left comparison is false.
\<close>

definition elongated :: "int \<Rightarrow> int \<Rightarrow> py_error + bool" where
  "elongated width height =
     (case py_truediv width height of
        Inl e \<Rightarrow> Inl e
      | Inr q \<Rightarrow>
          if q < 7 / 10 then Inr True
          else (case py_truediv height width of
                  Inl e \<Rightarrow> Inl e
                | Inr q' \<Rightarrow> Inr (q' < 7 / 10)))"

text \<open>
  Lines 61 to 65: the centre \<open>mid\<close> of the box, and the window of half-extent 100 around
  it, each edge clamped on its own against \<open>0\<close> or the image size.
\<close>

definition crop_window :: "int \<times> int \<times> int \<times> int \<Rightarrow> int \<times> int \<Rightarrow> (rat \<times> rat) \<times> region" where
  "crop_window b sz =
     (case b of (left0, top0, right0, bottom0) \<Rightarrow>
        let mid = (of_int (right0 + left0) / 2, of_int (bottom0 + top0) / 2);
            left' = py_max (PFloat (fst mid - 100)) (PInt 0);
            top' = py_max (PFloat (snd mid - 100)) (PInt 0);
            right' = py_min (PFloat (fst mid + 100)) (PInt (fst sz));
            bottom' = py_min (PFloat (snd mid + 100)) (PInt (snd sz))
        in (mid, (left', top', right', bottom')))"

text \<open>Line 69: the name of the saved crop, an f-string.\<close>

definition crop_name :: "string \<Rightarrow> string \<Rightarrow> rat \<times> rat \<Rightarrow> region \<Rightarrow> nat \<Rightarrow> string" where
  "crop_name confidence filename mid r i =
     (case r of (left', top', right', bottom') \<Rightarrow>
        confidence @ ''_'' @ filename @ ''_x_'' @ float_repr (fst mid) @
        ''_y_'' @ float_repr (snd mid) @ ''_h_'' @ py_str (py_sub bottom' top') @
        ''_w_'' @ py_str (py_sub right' left') @ ''_result'' @ str_nat i @ ''.jpg'')"

text \<open>
  Lines 61 to 73, for a box that passed both tests: crop, save, and append the row when
  recording is on. The call on line 73 passes \<^verbatim>\<open>right - left\<close> and then
  \<^verbatim>\<open>bottom - top\<close>.
\<close>

definition save_crop ::
  "detector \<Rightarrow> image \<Rightarrow> string \<Rightarrow> nat \<Rightarrow> rat \<Rightarrow> int \<times> int \<times> int \<times> int \<Rightarrow> world \<Rightarrow> world" where
  "save_crop self img filename i c b w =
     (case crop_window b (size_image img) of (mid, (left', top', right', bottom')) \<Rightarrow>
        let image1 = (img, (left', top', right', bottom'));
            confidence = format_2f c;
            path = os_path_join (output_directory self)
                     (crop_name confidence filename mid (left', top', right', bottom') i);
            w1 = w\<lparr>files := write_file path (Saved image1) (files w)\<rparr>
        in if save_to_csv self
           then save_row filename confidence (PFloat (fst mid)) (PFloat (snd mid))
                  (py_sub right' left') (py_sub bottom' top') w1
           else w1)"

text \<open>
  Lines 56 to 58: \<^verbatim>\<open>left, top, right, bottom = map(int, find)\<close>, then
  \<^verbatim>\<open>width = abs(left - right)\<close> and \<^verbatim>\<open>height = abs(top - bottom)\<close>.
\<close>

definition int_box :: "rat \<times> rat \<times> rat \<times> rat \<Rightarrow> int \<times> int \<times> int \<times> int" where
  "int_box find_row =
     (case find_row of (x1, y1, x2, y2) \<Rightarrow> (py_int x1, py_int y1, py_int x2, py_int y2))"

definition box_width :: "int \<times> int \<times> int \<times> int \<Rightarrow> int" where
  "box_width b = (case b of (left0, top0, right0, bottom0) \<Rightarrow> \<bar>left0 - right0\<bar>)"

definition box_height :: "int \<times> int \<times> int \<times> int \<Rightarrow> int" where
  "box_height b = (case b of (left0, top0, right0, bottom0) \<Rightarrow> \<bar>top0 - bottom0\<bar>)"

text \<open>Lines 56 to 73: one row \<open>find\<close> of \<^verbatim>\<open>box.xyxy\<close>.\<close>

definition process_find ::
  "detector \<Rightarrow> image \<Rightarrow> string \<Rightarrow> nat \<Rightarrow> rat \<Rightarrow> rat \<times> rat \<times> rat \<times> rat \<Rightarrow> world \<Rightarrow> outcome" where
  "process_find self img filename i c find_row w =
     (let b = int_box find_row; width = box_width b; height = box_height b
      in case elongated width height of
           Inl e \<Rightarrow> Raised e w
         | Inr True \<Rightarrow> Done w
         | Inr False \<Rightarrow> Done (save_crop self img filename i c b w))"

text \<open>
  Line 50, \<^verbatim>\<open>box.conf < 0.35\<close>, is a comparison of float32 values: the literal is
  rounded to float32 before it is compared.
\<close>

definition conf_threshold :: rat where
  "conf_threshold = 11744051 / 33554432"

text \<open>Lines 50 to 73: one box of \<^verbatim>\<open>result.boxes\<close>.\<close>

definition process_box :: "detector \<Rightarrow> image \<Rightarrow> string \<Rightarrow> nat \<Rightarrow> box \<Rightarrow> world \<Rightarrow> outcome" where
  "process_box self img filename i bx w =
     (if conf bx < conf_threshold then Done w
      else for_each (process_find self img filename i (conf bx)) (xyxy bx) w)"

definition process_image :: "env \<Rightarrow> detector \<Rightarrow> string \<Rightarrow> string \<Rightarrow> world \<Rightarrow> outcome" where
  "process_image ev self image_path filename w =
     (case image_open ev w image_path of
        Inl e \<Rightarrow> Raised e w
      | Inr img \<Rightarrow>
          for_each (\<lambda>(i, result). for_each (process_box self img filename i) result)
            (enumerate 0 (model self img)) w)"

subsection \<open>\<^verbatim>\<open>extract\<close>\<close>

text \<open>Line 79: the entries of the listing that are taken as images.\<close>

definition image_files :: "string list \<Rightarrow> string list" where
  "image_files names = filter (\<lambda>f. endswith f ''.jpg'') names"

text \<open>Lines 89 to 92: the loop over the images.\<close>

definition process_files :: "env \<Rightarrow> detector \<Rightarrow> string list \<Rightarrow> world \<Rightarrow> outcome" where
  "process_files ev self fs w =
     for_each (\<lambda>filename.
        process_image ev self (os_path_join (input_directory self) filename) filename) fs w"

text \<open>Lines 76 and 77: the output directory is made when it is not there.\<close>

definition ensure_output_directory :: "detector \<Rightarrow> world \<Rightarrow> outcome" where
  "ensure_output_directory self w =
     (if \<not> os_path_exists w (output_directory self)
      then os_makedirs (output_directory self) w else Done w)"

text \<open>The messages of lines 83 and 86.\<close>

definition no_images_message :: "detector \<Rightarrow> string" where
  "no_images_message self =
     ''No .jpg images found in the input directory: '' @ input_directory self"

definition image_count_message :: "detector \<Rightarrow> nat \<Rightarrow> string" where
  "image_count_message self image_count =
     ''Input directory set to '' @ [CHR 0x27] @ input_directory self @ [CHR 0x27] @
     '' with '' @ str_nat image_count @ '' images.''"

text \<open>The method \<^verbatim>\<open>extract\<close>, lines 75 to 92.\<close>

definition extract_images :: "env \<Rightarrow> detector \<Rightarrow> world \<Rightarrow> outcome" where
  "extract_images ev self w =
     (case ensure_output_directory self w of
        Raised e w' \<Rightarrow> Raised e w'
      | Done w1 \<Rightarrow>
          (case os_listdir w1 (input_directory self) of
             Inl e \<Rightarrow> Raised e w1
           | Inr names \<Rightarrow>
               let fs = image_files names; image_count = length fs
               in if image_count = 0 then Done (print (no_images_message self) w1)
                  else process_files ev self fs
                         (print (image_count_message self image_count) w1)))"

text \<open>Lines 103 and 104: recording is switched on, then the extraction runs.\<close>

definition run :: "env \<Rightarrow> detector \<Rightarrow> world \<Rightarrow> outcome" where
  "run ev self w = (case set_save_to_csv self True w of (self', w') \<Rightarrow> extract_images ev self' w')"

subsection \<open>Two runs side by side\<close>

text \<open>
  What a run can see of its input directory: the \<^verbatim>\<open>.jpg\<close> entries in listing order,
  each with what its file holds, or the exception of the listing.
\<close>

definition input_view :: "world \<Rightarrow> string \<Rightarrow> py_error + (string \<times> content option) list" where
  "input_view w d =
     (case os_listdir w d of
        Inl e \<Rightarrow> Inl e
      | Inr names \<Rightarrow>
          Inr (map (\<lambda>f. (f, map_of (files w) (os_path_join d f))) (image_files names)))"




subsection \<open>Example inputs\<close>

text \<open>
  The worked example: \<^verbatim>\<open>cell01.jpg\<close> of size 400 by 400 in \<^verbatim>\<open>Set5\<close>, one detection of
  confidence 0.812 (as float32, \<open>13623099 / 16777216\<close>) with box (150, 160, 190, 200),
  output to \<^verbatim>\<open>wbc\<close>.
\<close>

definition cell01 :: image where
  "cell01 = \<lparr>size_image = (400, 400), raster = 1\<rparr>"

definition one_detection :: "rat \<Rightarrow> rat \<times> rat \<times> rat \<times> rat \<Rightarrow> image \<Rightarrow> box list list" where
  "one_detection c b img = [[\<lparr>conf = c, xyxy = [b]\<rparr>]]"

definition detector_with :: "(image \<Rightarrow> box list list) \<Rightarrow> detector" where
  "detector_with m =
     \<lparr>model = m, input_directory = ''Set5'', output_directory = ''wbc'', save_to_csv = False\<rparr>"

definition worked_detector :: detector where
  "worked_detector = detector_with (one_detection (13623099 / 16777216) (150, 160, 190, 200))"

definition worked_world :: world where
  "worked_world =
     \<lparr>dirs = [''Set5''], files = [(''Set5/cell01.jpg'', Picture cell01)],
      output_csv = [], stdout = []\<rparr>"

text \<open>A saved crop is taken to decode to a picture of 200 by 200.\<close>

definition plain_env :: env where
  "plain_env = \<lparr>decode_saved = (\<lambda>c. Inr \<lparr>size_image = (200, 200), raster = 3\<rparr>)\<rparr>"

text \<open>
  Two files in \<^verbatim>\<open>Set5\<close>, \<^verbatim>\<open>a.jpg\<close> listed before \<^verbatim>\<open>cell01.jpg\<close>; what \<^verbatim>\<open>a.jpg\<close> holds
  is left open.
\<close>

definition flat_image :: image where
  "flat_image = \<lparr>size_image = (400, 400), raster = 2\<rparr>"

definition two_world :: "content \<Rightarrow> world" where
  "two_world first =
     \<lparr>dirs = [''Set5''],
      files = [(''Set5/a.jpg'', first), (''Set5/cell01.jpg'', Picture cell01)],
      output_csv = [], stdout = []\<rparr>"

text \<open>
  A model that reports on \<open>flat_image\<close> one box of the given corners, and the box of the
  worked example on every other image.
\<close>

definition odd_detector :: "rat \<times> rat \<times> rat \<times> rat \<Rightarrow> detector" where
  "odd_detector b = detector_with (\<lambda>img.
     if raster img = 2 then one_detection (9 / 10) b img
     else one_detection (13623099 / 16777216) (150, 160, 190, 200) img)"

text \<open>
  The same image with a detection at the left border, box (0, 160, 40, 200): the window
  is clamped on the left, so its two spans differ.
\<close>

definition border_detector :: detector where
  "border_detector = detector_with (one_detection (13623099 / 16777216) (0, 160, 40, 200))"

text \<open>An input directory that holds no \<^verbatim>\<open>.jpg\<close> entry, and one that is not there.\<close>

definition no_jpg_world :: world where
  "no_jpg_world =
     \<lparr>dirs = [''Set5''],
      files = [(''Set5/notes.txt'', Undecodable UnidentifiedImageError),
               (''Set5/scan.png'', Picture cell01)],
      output_csv = [], stdout = []\<rparr>"

definition bare_world :: world where
  "bare_world = \<lparr>dirs = [], files = [], output_csv = [], stdout = []\<rparr>"

text \<open>The worked example with the crops written into the input directory itself.\<close>

definition in_place_detector :: detector where
  "in_place_detector = worked_detector\<lparr>output_directory := ''Set5''\<rparr>"

text \<open>The worked example with recording on, and a directory of mixed entries.\<close>

definition recording_detector :: detector where
  "recording_detector = worked_detector\<lparr>save_to_csv := True\<rparr>"

definition mixed_world :: world where
  "mixed_world =
     \<lparr>dirs = [''Set5''],
      files = [(''Set5/notes.txt'', Undecodable UnidentifiedImageError),
               (''Set5/b.jpg'', Picture cell01),
               (''Set5/scan.png'', Picture cell01),
               (''Set5/c.JPG'', Picture cell01),
               (''Set5/d.jpeg'', Picture cell01),
               (''Set5/cell01.jpg'', Picture cell01)],
      output_csv = [], stdout = []\<rparr>"

section \<open>Properties\<close>

subsection \<open>Numbers\<close>

lemma num_val_py_sub: "num_val (py_sub a b) = num_val a - num_val b"
  by (cases a; cases b) simp_all

lemma num_val_py_max: "num_val (py_max a b) = max (num_val a) (num_val b)"
  by (simp add: py_max_def max_def)

lemma num_val_py_min: "num_val (py_min a b) = min (num_val a) (num_val b)"
  by (simp add: py_min_def min_def)

lemma window_bounds:
  fixes c :: rat
  assumes "0 \<le> c" "c \<le> W"
  shows "0 \<le> max (c - 100) 0" "max (c - 100) 0 \<le> min (c + 100) W" "min (c + 100) W \<le> W"
    "min (c + 100) W - max (c - 100) 0 \<le> 200"
  using assms by (simp_all add: min_def max_def)

lemma ratio_band:
  fixes a b :: rat
  assumes "0 < a" "0 < b"
  shows "(7 / 10 \<le> a / b \<and> a / b \<le> 1 / (7 / 10)) \<longleftrightarrow> \<not> (a / b < 7 / 10 \<or> b / a < 7 / 10)"
proof -
  have 1: "a / b \<le> 10 / 7 \<longleftrightarrow> 7 * a \<le> 10 * b"
    using assms by (simp add: field_simps)
  have 2: "b / a < 7 / 10 \<longleftrightarrow> 10 * b < 7 * a"
    using assms by (simp add: field_simps)
  show ?thesis using 1 2 by auto
qed

subsection \<open>The filter\<close>

lemma elongated_nonzero:
  assumes "width \<noteq> 0" "height \<noteq> 0"
  shows "elongated width height =
     Inr ((of_int width / of_int height :: rat) < 7 / 10 \<or>
          (of_int height / of_int width :: rat) < 7 / 10)"
  using assms by (simp add: elongated_def py_truediv_def)


lemma elongated_zero_width:
  assumes "height \<noteq> 0"
  shows "elongated 0 height = Inr True"
  using assms by (simp add: elongated_def py_truediv_def)

lemma elongated_zero_height: "elongated width 0 = Inl ZeroDivisionError"
  by (simp add: elongated_def py_truediv_def)

lemma map_of_write_file: "map_of (write_file p c fs) = (map_of fs)(p \<mapsto> c)"
  by (induction fs) (auto simp: fun_eq_iff)

lemma save_crop_effect:
  assumes "crop_window b (size_image img) = (mid, r)"
  shows "map_of (files (save_crop self img filename i c b w))
           (os_path_join (output_directory self) (crop_name (format_2f c) filename mid r i)) =
         Some (Saved (img, r))"
    and "length (output_csv (save_crop self img filename i c b w)) =
         length (output_csv w) + (if save_to_csv self then 1 else 0)"
  using assms
  by (cases r; simp add: save_crop_def Let_def save_row_def map_of_write_file)+


text \<open>
  C1 at a box of zero height. In \<^verbatim>\<open>Set5\<close> the image \<^verbatim>\<open>a.jpg\<close> comes before
  \<^verbatim>\<open>cell01.jpg\<close>, and the model reports on it one detection of confidence 0.9. With the
  box (150, 160, 190, 160), of width 40 and height 0, \<^verbatim>\<open>width / height\<close> on line 59
  raises \<^verbatim>\<open>ZeroDivisionError\<close>: the run ends there and \<^verbatim>\<open>cell01.jpg\<close> is never
  processed. With the mirror box (150, 160, 150, 200), of width 0 and height 40, the
  same line rejects the detection and the run goes on to save the crop of
  \<^verbatim>\<open>cell01.jpg\<close>.
\<close>

theorem zero_height_aborts:
  "extract_images plain_env (odd_detector (150, 160, 190, 160)) (two_world (Picture flat_image)) =
     Raised ZeroDivisionError
       \<lparr>dirs = [''Set5'', ''wbc''],
        files = [(''Set5/a.jpg'', Picture flat_image), (''Set5/cell01.jpg'', Picture cell01)],
        output_csv = [],
        stdout = [image_count_message (odd_detector (150, 160, 190, 160)) 2]\<rparr> \<and>
   extract_images plain_env (odd_detector (150, 160, 150, 200)) (two_world (Picture flat_image)) =
     Done
       \<lparr>dirs = [''Set5'', ''wbc''],
        files = [(''Set5/a.jpg'', Picture flat_image), (''Set5/cell01.jpg'', Picture cell01),
                 (''wbc/0.81_cell01.jpg_x_170.0_y_180.0_h_200.0_w_200.0_result0.jpg'',
                  Saved (cell01, (PFloat 70, PFloat 80, PFloat 270, PFloat 280)))],
        output_csv = [],
        stdout = [image_count_message (odd_detector (150, 160, 150, 200)) 2]\<rparr>"
  by code_simp


text \<open>
  C3 fails as stated at the threshold: the confidence \<open>11744051 / 33554432\<close>, the float32
  nearest to 0.35, is below 0.35, and the detection is accepted; its crop is saved.
\<close>

theorem threshold_below_035_accepted:
  "(11744051 / 33554432 :: rat) < 35 / 100 \<and>
   process_box worked_detector cell01 ''cell01.jpg'' 0
     \<lparr>conf = 11744051 / 33554432, xyxy = [(150, 160, 190, 200)]\<rparr> bare_world =
   Done (bare_world\<lparr>files :=
     [(''wbc/0.35_cell01.jpg_x_170.0_y_180.0_h_200.0_w_200.0_result0.jpg'',
       Saved (cell01, (PFloat 70, PFloat 80, PFloat 270, PFloat 280)))]\<rparr>)"
  by code_simp


text \<open>
  C3, as the code has it. A row \<open>(x1, y1, x2, y2)\<close> is truncated to the integer box
  \<open>(left, top, right, bottom)\<close>, of width \<open>\<bar>left - right\<bar>\<close> and height \<open>\<bar>top - bottom\<bar>\<close>.
  When both are nonzero, the detection is accepted exactly when its confidence is at
  least \<open>11744051 / 33554432\<close> (0.35 as line 50 compares it, in float32) and
  \<open>width / height\<close> lies in \<open>[0.7, 1 / 0.7]\<close>; that is, it is rejected exactly when the
  confidence is below that threshold or \<open>width / height < 0.7\<close> or
  \<open>height / width < 0.7\<close>. No fault is raised. An accepted detection leaves its crop in
  the file of the name of line 69, and one more row in the table when recording is on;
  a rejected one leaves the world as it was.
\<close>

theorem filter_accepts_iff:
  fixes c x1 y1 x2 y2 :: rat
  assumes "left0 = (if x1 < 0 then - \<lfloor>- x1\<rfloor> else \<lfloor>x1\<rfloor>)"
    and "top0 = (if y1 < 0 then - \<lfloor>- y1\<rfloor> else \<lfloor>y1\<rfloor>)"
    and "right0 = (if x2 < 0 then - \<lfloor>- x2\<rfloor> else \<lfloor>x2\<rfloor>)"
    and "bottom0 = (if y2 < 0 then - \<lfloor>- y2\<rfloor> else \<lfloor>y2\<rfloor>)"
    and "width = \<bar>left0 - right0\<bar>" and "height = \<bar>top0 - bottom0\<bar>"
    and "width \<noteq> 0" and "height \<noteq> 0"
    and "crop_window (left0, top0, right0, bottom0) (size_image img) = (mid, r)"
    and "path = os_path_join (output_directory self) (crop_name (format_2f c) filename mid r i)"
    and "res = process_box self img filename i \<lparr>conf = c, xyxy = [(x1, y1, x2, y2)]\<rparr> w"
    and "accepted \<longleftrightarrow> 11744051 / 33554432 \<le> c \<and>
           7 / 10 \<le> (of_int width / of_int height :: rat) \<and>
           (of_int width / of_int height :: rat) \<le> 1 / (7 / 10)"
  shows "raised res = None \<and>
         (if accepted
          then map_of (files (world_of res)) path = Some (Saved (img, r)) \<and>
               length (output_csv (world_of res)) =
                 length (output_csv w) + (if save_to_csv self then 1 else 0)
          else world_of res = w) \<and>
         (accepted \<longleftrightarrow>
            \<not> (c < 11744051 / 33554432 \<or> (of_int width / of_int height :: rat) < 7 / 10 \<or>
               (of_int height / of_int width :: rat) < 7 / 10))"
proof -
  have b: "int_box (x1, y1, x2, y2) = (left0, top0, right0, bottom0)"
    using assms(1-4) by (simp add: int_box_def py_int_def)
  have wh: "box_width (left0, top0, right0, bottom0) = width"
    "box_height (left0, top0, right0, bottom0) = height"
    using assms(5,6) by (simp_all add: box_width_def box_height_def)
  have pos: "0 < (of_int width :: rat)" "0 < (of_int height :: rat)"
    using assms(5-8) by simp_all
  note band = ratio_band [OF pos]
  have step: "process_find self img filename i c (x1, y1, x2, y2) w =
      (if of_int width / of_int height < (7 / 10 :: rat) \<or>
          of_int height / of_int width < (7 / 10 :: rat)
       then Done w
       else Done (save_crop self img filename i c (left0, top0, right0, bottom0) w))"
    using assms(7,8) by (simp add: process_find_def Let_def b wh elongated_nonzero)
  have res: "res = (if accepted
      then Done (save_crop self img filename i c (left0, top0, right0, bottom0) w) else Done w)"
    using band assms(12) by (auto simp: assms(11) process_box_def conf_threshold_def step)
  show ?thesis
  proof (cases accepted)
    case True
    then show ?thesis
      using save_crop_effect [OF assms(9), of self filename i c w] band assms(12)
      by (auto simp: res assms(10))
  next
    case False
    then show ?thesis using band assms(12) by (auto simp: res)
  qed
qed

theorem filter_accepts_iff_witness:
  "(150::int) = (if (1506 / 10 :: rat) < 0 then - \<lfloor>- (1506 / 10 :: rat)\<rfloor> else \<lfloor>1506 / 10 :: rat\<rfloor>) \<and>
   (160::int) = (if (1602 / 10 :: rat) < 0 then - \<lfloor>- (1602 / 10 :: rat)\<rfloor> else \<lfloor>1602 / 10 :: rat\<rfloor>) \<and>
   (190::int) = (if (1909 / 10 :: rat) < 0 then - \<lfloor>- (1909 / 10 :: rat)\<rfloor> else \<lfloor>1909 / 10 :: rat\<rfloor>) \<and>
   (200::int) = (if (2005 / 10 :: rat) < 0 then - \<lfloor>- (2005 / 10 :: rat)\<rfloor> else \<lfloor>2005 / 10 :: rat\<rfloor>) \<and>
   (40::int) = \<bar>150 - 190\<bar> \<and> (40::int) = \<bar>160 - 200\<bar> \<and> (40::int) \<noteq> 0 \<and>
   crop_window (150, 160, 190, 200) (size_image cell01) =
     ((170, 180), (PFloat 70, PFloat 80, PFloat 270, PFloat 280)) \<and>
   ''wbc/0.81_cell01.jpg_x_170.0_y_180.0_h_200.0_w_200.0_result0.jpg'' =
     os_path_join (output_directory worked_detector)
       (crop_name (format_2f (13623099 / 16777216)) ''cell01.jpg'' (170, 180)
          (PFloat 70, PFloat 80, PFloat 270, PFloat 280) 0) \<and>
   (True \<longleftrightarrow> 11744051 / 33554432 \<le> (13623099 / 16777216 :: rat) \<and>
      7 / 10 \<le> (of_int 40 / of_int 40 :: rat) \<and> (of_int 40 / of_int 40 :: rat) \<le> 1 / (7 / 10)) \<and>
   map_of (files (world_of (process_box worked_detector cell01 ''cell01.jpg'' 0
        \<lparr>conf = 13623099 / 16777216, xyxy = [(1506 / 10, 1602 / 10, 1909 / 10, 2005 / 10)]\<rparr>
        worked_world)))
     ''wbc/0.81_cell01.jpg_x_170.0_y_180.0_h_200.0_w_200.0_result0.jpg'' =
     Some (Saved (cell01, (PFloat 70, PFloat 80, PFloat 270, PFloat 280)))"
proof -
  have h1: "(150::int) = (if (1506 / 10 :: rat) < 0 then - \<lfloor>- (1506 / 10 :: rat)\<rfloor> else \<lfloor>1506 / 10 :: rat\<rfloor>)"
    by code_simp
  have h2: "(160::int) = (if (1602 / 10 :: rat) < 0 then - \<lfloor>- (1602 / 10 :: rat)\<rfloor> else \<lfloor>1602 / 10 :: rat\<rfloor>)"
    by code_simp
  have h3: "(190::int) = (if (1909 / 10 :: rat) < 0 then - \<lfloor>- (1909 / 10 :: rat)\<rfloor> else \<lfloor>1909 / 10 :: rat\<rfloor>)"
    by code_simp
  have h4: "(200::int) = (if (2005 / 10 :: rat) < 0 then - \<lfloor>- (2005 / 10 :: rat)\<rfloor> else \<lfloor>2005 / 10 :: rat\<rfloor>)"
    by code_simp
  have h5: "(40::int) = \<bar>150 - 190\<bar>" and h6: "(40::int) = \<bar>160 - 200\<bar>" and h7: "(40::int) \<noteq> 0"
    by simp_all
  have h9: "crop_window (150, 160, 190, 200) (size_image cell01) =
     ((170, 180), (PFloat 70, PFloat 80, PFloat 270, PFloat 280))"
    by code_simp
  have h10: "''wbc/0.81_cell01.jpg_x_170.0_y_180.0_h_200.0_w_200.0_result0.jpg'' =
     os_path_join (output_directory worked_detector)
       (crop_name (format_2f (13623099 / 16777216)) ''cell01.jpg'' (170, 180)
          (PFloat 70, PFloat 80, PFloat 270, PFloat 280) 0)"
    by code_simp
  have h12: "True \<longleftrightarrow> 11744051 / 33554432 \<le> (13623099 / 16777216 :: rat) \<and>
      7 / 10 \<le> (of_int 40 / of_int 40 :: rat) \<and> (of_int 40 / of_int 40 :: rat) \<le> 1 / (7 / 10)"
    by simp
  note inst = filter_accepts_iff [OF h1 h2 h3 h4 h5 h6 h7 h7 h9 h10 refl h12,
      where w = worked_world]
  have concl: "map_of (files (world_of (process_box worked_detector cell01 ''cell01.jpg'' 0
        \<lparr>conf = 13623099 / 16777216, xyxy = [(1506 / 10, 1602 / 10, 1909 / 10, 2005 / 10)]\<rparr>
        worked_world)))
     ''wbc/0.81_cell01.jpg_x_170.0_y_180.0_h_200.0_w_200.0_result0.jpg'' =
     Some (Saved (cell01, (PFloat 70, PFloat 80, PFloat 270, PFloat 280)))"
    using inst by simp
  show ?thesis
    by (intro conjI h1 h2 h3 h4 h5 h6 h7 h9 h10 h12 concl)
qed


subsection \<open>The crop window\<close>

text \<open>
  C4: for every box \<open>(left, top, right, bottom)\<close> and image size \<open>(W, H)\<close> the window is
  \<open>max (cx - 100) 0\<close>, \<open>max (cy - 100) 0\<close>, \<open>min (cx + 100) W\<close>, \<open>min (cy + 100) H\<close> with
  \<open>cx = (right + left) / 2\<close> and \<open>cy = (bottom + top) / 2\<close> taken exactly; when the centre
  is at least 100 from every border, the window is 200 by 200 and centred on \<open>(cx, cy)\<close>.
\<close>

theorem crop_window_exact:
  "(case crop_window (left0, top0, right0, bottom0) (W, H) of
      ((cx, cy), (left', top', right', bottom')) \<Rightarrow>
        cx = of_int (right0 + left0) / 2 \<and> cy = of_int (bottom0 + top0) / 2 \<and>
        num_val left' = max (cx - 100) 0 \<and> num_val top' = max (cy - 100) 0 \<and>
        num_val right' = min (cx + 100) (of_int W) \<and>
        num_val bottom' = min (cy + 100) (of_int H) \<and>
        (100 \<le> cx \<and> cx + 100 \<le> of_int W \<and> 100 \<le> cy \<and> cy + 100 \<le> of_int H \<longrightarrow>
           num_val (py_sub right' left') = 200 \<and> num_val (py_sub bottom' top') = 200 \<and>
           (num_val left' + num_val right') / 2 = cx \<and>
           (num_val top' + num_val bottom') / 2 = cy))"
  by (simp add: crop_window_def Let_def num_val_py_sub num_val_py_max num_val_py_min)

theorem crop_window_exact_witness:
  "crop_window (150, 160, 190, 200) (400, 400) =
     ((170, 180), (PFloat 70, PFloat 80, PFloat 270, PFloat 280)) \<and>
   num_val (py_sub (PFloat 270) (PFloat 70)) = 200 \<and>
   num_val (py_sub (PFloat 280) (PFloat 80)) = 200"
  using crop_window_exact [of 150 160 190 200 400 400]
  by (simp add: crop_window_def Let_def py_max_def py_min_def)

text \<open>
  C6: for a box within the image, \<open>0 \<le> left \<le> right \<le> W\<close> and \<open>0 \<le> top \<le> bottom \<le> H\<close>,
  the window satisfies \<open>0 \<le> left' \<le> right' \<le> W\<close>, \<open>0 \<le> top' \<le> bottom' \<le> H\<close>,
  \<open>right' - left' \<le> 200\<close> and \<open>bottom' - top' \<le> 200\<close>.
\<close>

theorem crop_region_invariant:
  assumes "0 \<le> left0" "left0 \<le> right0" "right0 \<le> W"
    and "0 \<le> top0" "top0 \<le> bottom0" "bottom0 \<le> H"
  shows "(case crop_window (left0, top0, right0, bottom0) (W, H) of
      (mid, (left', top', right', bottom')) \<Rightarrow>
        0 \<le> num_val left' \<and> num_val left' \<le> num_val right' \<and> num_val right' \<le> of_int W \<and>
        0 \<le> num_val top' \<and> num_val top' \<le> num_val bottom' \<and> num_val bottom' \<le> of_int H \<and>
        num_val (py_sub right' left') \<le> 200 \<and> num_val (py_sub bottom' top') \<le> 200)"
proof -
  define cx :: rat where "cx = of_int (right0 + left0) / 2"
  define cy :: rat where "cy = of_int (bottom0 + top0) / 2"
  have x: "0 \<le> cx" "cx \<le> of_int W" using assms(1-3) by (simp_all add: cx_def)
  have y: "0 \<le> cy" "cy \<le> of_int H" using assms(4-6) by (simp_all add: cy_def)
  have "crop_window (left0, top0, right0, bottom0) (W, H) =
      ((cx, cy), (py_max (PFloat (cx - 100)) (PInt 0), py_max (PFloat (cy - 100)) (PInt 0),
        py_min (PFloat (cx + 100)) (PInt W), py_min (PFloat (cy + 100)) (PInt H)))"
    by (simp add: crop_window_def Let_def cx_def cy_def)
  then show ?thesis
    using window_bounds [OF x] window_bounds [OF y]
    by (simp add: num_val_py_sub num_val_py_max num_val_py_min)
qed

theorem crop_region_invariant_witness:
  "(0::int) \<le> 0 \<and> (0::int) \<le> 40 \<and> (40::int) \<le> 400 \<and>
   (0::int) \<le> 160 \<and> (160::int) \<le> 200 \<and> (200::int) \<le> 400 \<and>
   crop_window (0, 160, 40, 200) (400, 400) =
     ((20, 180), (PInt 0, PFloat 80, PFloat 120, PFloat 280)) \<and>
   num_val (py_sub (PFloat 120) (PInt 0)) \<le> 200"
  using crop_region_invariant [of 0 40 400 160 200 400]
  by (simp add: crop_window_def Let_def py_max_def py_min_def)

subsection \<open>File names and table rows\<close>

text \<open>
  C5 fails as stated: in the worked example no file of the name ending in
  \<^verbatim>\<open>_h_200_w_200_result0.jpg\<close> is written, and no row with the fields \<^verbatim>\<open>200\<close>,
  \<^verbatim>\<open>200\<close> is appended. The spans are differences of floats, and Python prints them with
  a decimal point.
\<close>

theorem worked_example_not_int_spans:
  "map_of (files (world_of (run plain_env worked_detector worked_world)))
     ''wbc/0.81_cell01.jpg_x_170.0_y_180.0_h_200_w_200_result0.jpg'' = None \<and>
   [''cell01.jpg'', ''0.81'', ''170.0'', ''180.0'', ''200'', ''200'']
     \<notin> set (output_csv (world_of (run plain_env worked_detector worked_world)))"
  by code_simp


text \<open>
  C5, as the code has it: in the worked example, with recording on, the detection is
  accepted, the crop region is (70, 80, 270, 280), the one file written is
  \<^verbatim>\<open>0.81_cell01.jpg_x_170.0_y_180.0_h_200.0_w_200.0_result0.jpg\<close> in the output directory,
  and the one row appended after the header is
  \<^verbatim>\<open>cell01.jpg, 0.81, 170.0, 180.0, 200.0, 200.0\<close>.
\<close>

theorem worked_example:
  "run plain_env worked_detector worked_world =
     Done \<lparr>dirs = [''Set5'', ''wbc''],
           files = [(''Set5/cell01.jpg'', Picture cell01),
                    (''wbc/0.81_cell01.jpg_x_170.0_y_180.0_h_200.0_w_200.0_result0.jpg'',
                     Saved (cell01, (PFloat 70, PFloat 80, PFloat 270, PFloat 280)))],
           output_csv = [csv_header,
                         [''cell01.jpg'', ''0.81'', ''170.0'', ''180.0'', ''200.0'', ''200.0'']],
           stdout = [''Saving to csv file: output.csv'', image_count_message worked_detector 1]\<rparr>"
  by code_simp


text \<open>
  C2 at a detection on the left border, box (0, 160, 40, 200) in the 400 by 400 image:
  the crop region is (0, 80, 120.0, 280.0), of vertical span 200.0 and horizontal span
  120.0. The file name has \<^verbatim>\<open>h_200.0_w_120.0\<close>, and the row has 120.0 in the column
  \<^verbatim>\<open>height\<close> and 200.0 in the column \<^verbatim>\<open>width\<close>.
\<close>

theorem border_row_spans_swapped:
  "output_csv (world_of (run plain_env border_detector worked_world)) =
     [[''filename'', ''confidence'', ''center_x'', ''center_y'', ''height'', ''width''],
      [''cell01.jpg'', ''0.81'', ''20.0'', ''180.0'', ''120.0'', ''200.0'']] \<and>
   map_of (files (world_of (run plain_env border_detector worked_world)))
     ''wbc/0.81_cell01.jpg_x_20.0_y_180.0_h_200.0_w_120.0_result0.jpg'' =
     Some (Saved (cell01, (PInt 0, PFloat 80, PFloat 120, PFloat 280)))"
  by code_simp


subsection \<open>The run over the input directory\<close>

lemma for_each_append:
  "for_each body (xs @ ys) w =
     (case for_each body xs w of
        Done w' \<Rightarrow> for_each body ys w'
      | Raised e w' \<Rightarrow> Raised e w')"
  by (induction xs arbitrary: w) (simp_all split: outcome.splits)

lemma endswith_iff: "endswith s suffix \<longleftrightarrow> (\<exists>stem. s = stem @ suffix)"
proof
  assume "endswith s suffix"
  then have "s = take (length s - length suffix) s @ suffix"
    by (metis append_take_drop_id endswith_def)
  then show "\<exists>stem. s = stem @ suffix" ..
next
  assume "\<exists>stem. s = stem @ suffix"
  then show "endswith s suffix" by (auto simp: endswith_def)
qed


text \<open>
  C7 fails: with \<^verbatim>\<open>a.jpg\<close> undecodable and \<^verbatim>\<open>cell01.jpg\<close> after it, the exception of
  \<^verbatim>\<open>Image.open\<close> ends the run. No crop of \<^verbatim>\<open>cell01.jpg\<close> is written and nothing about
  \<^verbatim>\<open>a.jpg\<close> is printed.
\<close>

theorem decode_failure_ends_run:
  "extract_images plain_env worked_detector (two_world (Undecodable UnidentifiedImageError)) =
     Raised UnidentifiedImageError
       \<lparr>dirs = [''Set5'', ''wbc''],
        files = [(''Set5/a.jpg'', Undecodable UnidentifiedImageError),
                 (''Set5/cell01.jpg'', Picture cell01)],
        output_csv = [],
        stdout = [image_count_message worked_detector 2]\<rparr>"
  by code_simp


text \<open>
  C7, as the code has it: when decoding one image fails, the exception leaves
  \<^verbatim>\<open>extract\<close>. The images listed before it have been processed; that image and all
  later ones are not, and the program prints no report of the failure.
\<close>

theorem decode_failure_aborts:
  assumes "ensure_output_directory self w = Done w1"
    and "os_listdir w1 (input_directory self) = Inr names"
    and "image_files names = pre @ f # post"
    and "process_files ev self pre
           (print (image_count_message self (length (image_files names))) w1) = Done w2"
    and "image_open ev w2 (os_path_join (input_directory self) f) = Inl e"
  shows "extract_images ev self w = Raised e w2"
proof -
  let ?body = "\<lambda>filename.
     process_image ev self (os_path_join (input_directory self) filename) filename"
  have bad: "?body f w2 = Raised e w2"
    using assms(5) by (simp add: process_image_def)
  have "process_files ev self (pre @ f # post)
      (print (image_count_message self (length (image_files names))) w1) = Raised e w2"
    using assms(4) bad by (simp add: process_files_def for_each_append)
  then show ?thesis
    using assms(1-3) by (simp add: extract_images_def Let_def)
qed

theorem decode_failure_aborts_witness:
  "ensure_output_directory worked_detector (two_world (Undecodable UnidentifiedImageError)) =
     Done ((two_world (Undecodable UnidentifiedImageError))\<lparr>dirs := [''Set5'', ''wbc'']\<rparr>) \<and>
   os_listdir ((two_world (Undecodable UnidentifiedImageError))\<lparr>dirs := [''Set5'', ''wbc'']\<rparr>)
     (input_directory worked_detector) = Inr [''a.jpg'', ''cell01.jpg''] \<and>
   image_files [''a.jpg'', ''cell01.jpg''] = [] @ ''a.jpg'' # [''cell01.jpg''] \<and>
   image_open plain_env
     (print (image_count_message worked_detector 2)
        ((two_world (Undecodable UnidentifiedImageError))\<lparr>dirs := [''Set5'', ''wbc'']\<rparr>))
     (os_path_join (input_directory worked_detector) ''a.jpg'') = Inl UnidentifiedImageError \<and>
   extract_images plain_env worked_detector (two_world (Undecodable UnidentifiedImageError)) =
     Raised UnidentifiedImageError
       (print (image_count_message worked_detector 2)
          ((two_world (Undecodable UnidentifiedImageError))\<lparr>dirs := [''Set5'', ''wbc'']\<rparr>))"
proof -
  let ?w = "two_world (Undecodable UnidentifiedImageError)"
  let ?w1 = "?w\<lparr>dirs := [''Set5'', ''wbc'']\<rparr>"
  let ?names = "[''a.jpg'', ''cell01.jpg'']"
  let ?w2 = "print (image_count_message worked_detector 2) ?w1"
  have h1: "ensure_output_directory worked_detector ?w = Done ?w1"
    by code_simp
  have h2: "os_listdir ?w1 (input_directory worked_detector) = Inr ?names"
    by code_simp
  have h3: "image_files ?names = [] @ ''a.jpg'' # [''cell01.jpg'']"
    by code_simp
  have h4: "process_files plain_env worked_detector []
      (print (image_count_message worked_detector (length (image_files ?names))) ?w1) = Done ?w2"
    by code_simp
  have h5: "image_open plain_env ?w2 (os_path_join (input_directory worked_detector) ''a.jpg'') =
      Inl UnidentifiedImageError"
    by code_simp
  note concl = decode_failure_aborts [OF h1 h2 h3 h4 h5]
  show ?thesis
    by (intro conjI h1 h2 h3 h5 concl)
qed


text \<open>
  C8 fails for a missing input directory: \<^verbatim>\<open>os.listdir\<close> raises
  \<^verbatim>\<open>FileNotFoundError\<close>, which leaves \<^verbatim>\<open>extract\<close>, and nothing is printed.
\<close>

theorem missing_directory_raises:
  "extract_images plain_env worked_detector bare_world =
     Raised FileNotFoundError \<lparr>dirs = [''wbc''], files = [], output_csv = [], stdout = []\<rparr>"
  by code_simp


text \<open>
  C8, as the code has it: when the output directory is there or can be made, and the
  input directory is listed and holds no \<^verbatim>\<open>.jpg\<close> entry, the run prints the message of
  line 83 and ends normally; no file is written and no row is appended.
\<close>

theorem no_images_reported:
  assumes "ensure_output_directory self w = Done w1"
    and "os_listdir w1 (input_directory self) = Inr names"
    and "image_files names = []"
  shows "extract_images ev self w = Done (print (no_images_message self) w1)
     \<and> files (print (no_images_message self) w1) = files w
     \<and> output_csv (print (no_images_message self) w1) = output_csv w"
proof -
  have "files w1 = files w \<and> output_csv w1 = output_csv w"
    using assms(1)
    by (auto simp: ensure_output_directory_def os_makedirs_def split: if_splits)
  then show ?thesis
    using assms by (simp add: extract_images_def print_def)
qed

theorem no_images_reported_witness:
  "ensure_output_directory worked_detector no_jpg_world =
     Done (no_jpg_world\<lparr>dirs := [''Set5'', ''wbc'']\<rparr>) \<and>
   os_listdir (no_jpg_world\<lparr>dirs := [''Set5'', ''wbc'']\<rparr>) (input_directory worked_detector) =
     Inr [''notes.txt'', ''scan.png''] \<and>
   image_files [''notes.txt'', ''scan.png''] = [] \<and>
   extract_images plain_env worked_detector no_jpg_world =
     Done (print (no_images_message worked_detector) (no_jpg_world\<lparr>dirs := [''Set5'', ''wbc'']\<rparr>))"
proof -
  have h1: "ensure_output_directory worked_detector no_jpg_world =
      Done (no_jpg_world\<lparr>dirs := [''Set5'', ''wbc'']\<rparr>)"
    by code_simp
  have h2: "os_listdir (no_jpg_world\<lparr>dirs := [''Set5'', ''wbc'']\<rparr>)
      (input_directory worked_detector) = Inr [''notes.txt'', ''scan.png'']"
    by code_simp
  have h3: "image_files [''notes.txt'', ''scan.png''] = []"
    by code_simp
  note concl = no_images_reported [OF h1 h2 h3, of plain_env, THEN conjunct1]
  show ?thesis
    by (intro conjI h1 h2 h3 concl)
qed


text \<open>
  C10: the entries taken as images are exactly those whose name ends in \<^verbatim>\<open>.jpg\<close>. The
  run opens and processes each of them, in the order of the listing, and nothing else:
  every other entry (\<^verbatim>\<open>.png\<close>, \<^verbatim>\<open>.jpeg\<close>, \<^verbatim>\<open>.JPG\<close>) is never opened and adds no
  file, no row, no printed line and no error.
\<close>

theorem only_jpg_entries:
  assumes "ensure_output_directory self w = Done w1"
    and "os_listdir w1 (input_directory self) = Inr names"
    and "fs = filter (\<lambda>f. \<exists>stem. f = stem @ ''.jpg'') names"
  shows "extract_images ev self w =
     (if fs = [] then Done (print (no_images_message self) w1)
      else for_each
             (\<lambda>f. process_image ev self (os_path_join (input_directory self) f) f) fs
             (print (image_count_message self (length fs)) w1))"
proof -
  have fs: "image_files names = fs"
    by (simp add: image_files_def endswith_iff assms(3))
  have pf: "process_files ev self fs v = for_each
      (\<lambda>f. process_image ev self (os_path_join (input_directory self) f) f) fs v" for v
    by (simp add: process_files_def)
  show ?thesis
    using assms(1,2) by (simp add: extract_images_def Let_def fs pf)
qed

theorem only_jpg_entries_witness:
  "ensure_output_directory recording_detector mixed_world =
     Done (mixed_world\<lparr>dirs := [''Set5'', ''wbc'']\<rparr>) \<and>
   os_listdir (mixed_world\<lparr>dirs := [''Set5'', ''wbc'']\<rparr>) (input_directory recording_detector) =
     Inr [''notes.txt'', ''b.jpg'', ''scan.png'', ''c.JPG'', ''d.jpeg'', ''cell01.jpg''] \<and>
   [''b.jpg'', ''cell01.jpg''] =
     filter (\<lambda>f. \<exists>stem. f = stem @ ''.jpg'')
       [''notes.txt'', ''b.jpg'', ''scan.png'', ''c.JPG'', ''d.jpeg'', ''cell01.jpg''] \<and>
   extract_images plain_env recording_detector mixed_world =
     Done (mixed_world
       \<lparr>dirs := [''Set5'', ''wbc''],
        files := files mixed_world @
          [(''wbc/0.81_b.jpg_x_170.0_y_180.0_h_200.0_w_200.0_result0.jpg'',
            Saved (cell01, (PFloat 70, PFloat 80, PFloat 270, PFloat 280))),
           (''wbc/0.81_cell01.jpg_x_170.0_y_180.0_h_200.0_w_200.0_result0.jpg'',
            Saved (cell01, (PFloat 70, PFloat 80, PFloat 270, PFloat 280)))],
        output_csv := [[''b.jpg'', ''0.81'', ''170.0'', ''180.0'', ''200.0'', ''200.0''],
                       [''cell01.jpg'', ''0.81'', ''170.0'', ''180.0'', ''200.0'', ''200.0'']],
        stdout := [image_count_message recording_detector 2]\<rparr>)"
proof -
  let ?w1 = "mixed_world\<lparr>dirs := [''Set5'', ''wbc'']\<rparr>"
  let ?names = "[''notes.txt'', ''b.jpg'', ''scan.png'', ''c.JPG'', ''d.jpeg'', ''cell01.jpg'']"
  have h1: "ensure_output_directory recording_detector mixed_world = Done ?w1"
    by code_simp
  have h2: "os_listdir ?w1 (input_directory recording_detector) = Inr ?names"
    by code_simp
  have "[''b.jpg'', ''cell01.jpg''] = filter (\<lambda>f. endswith f ''.jpg'') ?names"
    by code_simp
  then have h3: "[''b.jpg'', ''cell01.jpg''] = filter (\<lambda>f. \<exists>stem. f = stem @ ''.jpg'') ?names"
    by (simp only: endswith_iff)
  have ev: "for_each
      (\<lambda>f. process_image plain_env recording_detector
             (os_path_join (input_directory recording_detector) f) f)
      [''b.jpg'', ''cell01.jpg'']
      (print (image_count_message recording_detector (length [''b.jpg'', ''cell01.jpg''])) ?w1) =
     Done (mixed_world
       \<lparr>dirs := [''Set5'', ''wbc''],
        files := files mixed_world @
          [(''wbc/0.81_b.jpg_x_170.0_y_180.0_h_200.0_w_200.0_result0.jpg'',
            Saved (cell01, (PFloat 70, PFloat 80, PFloat 270, PFloat 280))),
           (''wbc/0.81_cell01.jpg_x_170.0_y_180.0_h_200.0_w_200.0_result0.jpg'',
            Saved (cell01, (PFloat 70, PFloat 80, PFloat 270, PFloat 280)))],
        output_csv := [[''b.jpg'', ''0.81'', ''170.0'', ''180.0'', ''200.0'', ''200.0''],
                       [''cell01.jpg'', ''0.81'', ''170.0'', ''180.0'', ''200.0'', ''200.0'']],
        stdout := [image_count_message recording_detector 2]\<rparr>)"
    by code_simp
  have concl: "extract_images plain_env recording_detector mixed_world =
     Done (mixed_world
       \<lparr>dirs := [''Set5'', ''wbc''],
        files := files mixed_world @
          [(''wbc/0.81_b.jpg_x_170.0_y_180.0_h_200.0_w_200.0_result0.jpg'',
            Saved (cell01, (PFloat 70, PFloat 80, PFloat 270, PFloat 280))),
           (''wbc/0.81_cell01.jpg_x_170.0_y_180.0_h_200.0_w_200.0_result0.jpg'',
            Saved (cell01, (PFloat 70, PFloat 80, PFloat 270, PFloat 280)))],
        output_csv := [[''b.jpg'', ''0.81'', ''170.0'', ''180.0'', ''200.0'', ''200.0''],
                       [''cell01.jpg'', ''0.81'', ''170.0'', ''180.0'', ''200.0'', ''200.0'']],
        stdout := [image_count_message recording_detector 2]\<rparr>)"
    using only_jpg_entries [OF h1 h2 h3, of plain_env] ev by simp
  show ?thesis
    by (intro conjI h1 h2 h3 concl)
qed


subsection \<open>Two runs\<close>

























lemma str_nat_nonempty: "str_nat n \<noteq> []"
  by (subst str_nat.simps) simp























text \<open>
  With the crops written into the input directory itself, the first run changes what
  the second one lists: the second run processes the first run's crop as well and
  appends two rows where the first appended one.
\<close>

lemma in_place_second_run_differs:
  "input_view (world_of (run plain_env in_place_detector worked_world)) ''Set5'' \<noteq>
     input_view worked_world ''Set5'' \<and>
   length (output_csv (world_of (run plain_env in_place_detector worked_world))) = 2 \<and>
   length (output_csv (world_of (run plain_env in_place_detector
      (world_of (run plain_env in_place_detector worked_world))))) = 3"
  by code_simp




end
